theory Spec2Isabelle
  imports Complex_Main "HOL-Library.While_Combinator"
begin

section \<open>Arrays and element types\<close>

text \<open>
  The module \<^verbatim>\<open>skimage/morphology/extrema.py\<close> works on numpy arrays. An array has an
  element type, a shape and its samples. The integer element types are the fixed-width
  ones of numpy; \<^verbatim>\<open>np.iinfo\<close> gives their least and greatest value. Samples are kept
  as mathematical integers inside that range, and every arithmetic operation of numpy on
  an integer array is followed by the wrap-around of the element type, written out in
  \<open>wrap\<close>. Samples are stored flat, in row-major order, next to the 2-D shape.
\<close>

datatype int_dtype = UInt8 | UInt16 | UInt32 | UInt64 | Int8 | Int16 | Int32 | Int64

fun bits :: "int_dtype \<Rightarrow> nat" where
  "bits UInt8 = 8"
| "bits UInt16 = 16"
| "bits UInt32 = 32"
| "bits UInt64 = 64"
| "bits Int8 = 8"
| "bits Int16 = 16"
| "bits Int32 = 32"
| "bits Int64 = 64"

fun is_signed :: "int_dtype \<Rightarrow> bool" where
  "is_signed UInt8 = False"
| "is_signed UInt16 = False"
| "is_signed UInt32 = False"
| "is_signed UInt64 = False"
| "is_signed Int8 = True"
| "is_signed Int16 = True"
| "is_signed Int32 = True"
| "is_signed Int64 = True"

definition iinfo_min :: "int_dtype \<Rightarrow> int" where
  "iinfo_min dt = (if is_signed dt then - (2 ^ (bits dt - 1)) else 0)"

definition iinfo_max :: "int_dtype \<Rightarrow> int" where
  "iinfo_max dt = (if is_signed dt then 2 ^ (bits dt - 1) - 1 else 2 ^ bits dt - 1)"

definition wrap :: "int_dtype \<Rightarrow> int \<Rightarrow> int" where
  "wrap dt v = (v - iinfo_min dt) mod 2 ^ bits dt + iinfo_min dt"

datatype float_dtype = Float16 | Float32 | Float64

text \<open>
  \<^verbatim>\<open>np.finfo(dtype).resolution\<close> is \<open>10 ^ (- precision)\<close>, with 3, 6 and 15 decimal
  digits of precision for the three floating-point types.
\<close>

fun finfo_resolution :: "float_dtype \<Rightarrow> real" where
  "finfo_resolution Float16 = 1 / 10 ^ 3"
| "finfo_resolution Float32 = 1 / 10 ^ 6"
| "finfo_resolution Float64 = 1 / 10 ^ 15"

record ('t, 'a) nparray =
  dtype :: 't
  shape :: "nat \<times> nat"
  data :: "'a list"

text \<open>
  An integer array has integer samples. The samples of a floating-point array are taken as
  real numbers: the rounding of floating-point operations is not part of this model.
\<close>

type_synonym iarray = "(int_dtype, int) nparray"

type_synonym farray = "(float_dtype, real) nparray"

definition wf_iarray :: "iarray \<Rightarrow> bool" where
  "wf_iarray a \<longleftrightarrow>
     length (data a) = fst (shape a) * snd (shape a) \<and>
     list_all (\<lambda>v. iinfo_min (dtype a) \<le> v \<and> v \<le> iinfo_max (dtype a)) (data a)"


datatype error = ValueError

subsection \<open>Elementwise operations of numpy\<close>

text \<open>
  \<^verbatim>\<open>img + c\<close> and \<^verbatim>\<open>img - c\<close> on an integer array and a Python integer. The result is
  kept in the element type of the array, with its wrap-around. (When \<open>c\<close> itself does not
  fit the element type, numpy either widens the element type of the result or refuses the
  operation, depending on its version; the samples that are not overwritten by the masked
  assignments below are the same in every case, as long as \<open>0 \<le> c \<le> max - min\<close>.)
\<close>

definition array_add_scalar :: "int_dtype \<Rightarrow> int list \<Rightarrow> int \<Rightarrow> int list" where
  "array_add_scalar dt xs c = map (\<lambda>v. wrap dt (v + c)) xs"

definition array_sub_scalar :: "int_dtype \<Rightarrow> int list \<Rightarrow> int \<Rightarrow> int list" where
  "array_sub_scalar dt xs c = map (\<lambda>v. wrap dt (v - c)) xs"

text \<open>\<^verbatim>\<open>result[mask] = v\<close>: assignment through a boolean mask of the same shape.\<close>

definition mask_assign :: "bool list \<Rightarrow> 'a \<Rightarrow> 'a list \<Rightarrow> 'a list" where
  "mask_assign m v xs = map2 (\<lambda>b x. if b then v else x) m xs"

section \<open>Saturated arithmetic\<close>

text \<open>
  \<^verbatim>\<open>
  def _add_constant_clip(img, const_value):
      array_info = np.iinfo(img.dtype)
      max_dtype = array_info.max
      min_dtype = array_info.min
      if const_value > (max_dtype - min_dtype):
          raise ValueError(...)
      result = img + const_value
      result[img > max_dtype-const_value] = max_dtype
      return(result)
  \<close>
\<close>

definition add_constant_clip :: "iarray \<Rightarrow> int \<Rightarrow> error + iarray" where
  "add_constant_clip img const_value =
     (let max_dtype = iinfo_max (dtype img);
          min_dtype = iinfo_min (dtype img)
      in if const_value > max_dtype - min_dtype then Inl ValueError
         else
           let result = array_add_scalar (dtype img) (data img) const_value;
               result = mask_assign (map (\<lambda>v. v > max_dtype - const_value) (data img))
                          max_dtype result
           in Inr (img\<lparr>data := result\<rparr>))"

text \<open>
  \<^verbatim>\<open>
  def _subtract_constant_clip(img, const_value):
      ...
      if const_value > (max_dtype-min_dtype):
          raise ValueError(...)
      result = img - const_value
      result[img < (const_value + min_dtype)] = min_dtype
      return(result)
  \<close>
\<close>

definition subtract_constant_clip :: "iarray \<Rightarrow> int \<Rightarrow> error + iarray" where
  "subtract_constant_clip img const_value =
     (let max_dtype = iinfo_max (dtype img);
          min_dtype = iinfo_min (dtype img)
      in if const_value > max_dtype - min_dtype then Inl ValueError
         else
           let result = array_sub_scalar (dtype img) (data img) const_value;
               result = mask_assign (map (\<lambda>v. v < const_value + min_dtype) (data img))
                          min_dtype result
           in Inr (img\<lparr>data := result\<rparr>))"

subsection \<open>The same two functions over a store of arrays\<close>

text \<open>
  numpy arrays are mutable objects and both functions assign into an array in place. To
  say which array is written, the store maps references to arrays; \<open>fresh\<close> is the next
  unused reference. \<^verbatim>\<open>img + const_value\<close> allocates its result, and the masked
  assignment then writes into that new array.
\<close>

type_synonym ref = nat

record store =
  arrays :: "ref \<Rightarrow> iarray"
  fresh :: ref

definition alloc :: "iarray \<Rightarrow> store \<Rightarrow> ref \<times> store" where
  "alloc a s = (fresh s, s\<lparr>arrays := (arrays s)(fresh s := a), fresh := Suc (fresh s)\<rparr>)"

definition store_mask_assign :: "ref \<Rightarrow> bool list \<Rightarrow> int \<Rightarrow> store \<Rightarrow> store" where
  "store_mask_assign r m v s =
     s\<lparr>arrays := (arrays s)(r := (arrays s r)\<lparr>data := mask_assign m v (data (arrays s r))\<rparr>)\<rparr>"

definition add_constant_clip_st :: "ref \<Rightarrow> int \<Rightarrow> store \<Rightarrow> (error + ref) \<times> store" where
  "add_constant_clip_st img const_value s =
     (let max_dtype = iinfo_max (dtype (arrays s img));
          min_dtype = iinfo_min (dtype (arrays s img))
      in if const_value > max_dtype - min_dtype then (Inl ValueError, s)
         else
           let (result, s1) =
                 alloc ((arrays s img)\<lparr>data :=
                    array_add_scalar (dtype (arrays s img)) (data (arrays s img)) const_value\<rparr>) s;
               s2 = store_mask_assign result
                      (map (\<lambda>v. v > max_dtype - const_value) (data (arrays s1 img)))
                      max_dtype s1
           in (Inr result, s2))"

definition subtract_constant_clip_st :: "ref \<Rightarrow> int \<Rightarrow> store \<Rightarrow> (error + ref) \<times> store" where
  "subtract_constant_clip_st img const_value s =
     (let max_dtype = iinfo_max (dtype (arrays s img));
          min_dtype = iinfo_min (dtype (arrays s img))
      in if const_value > max_dtype - min_dtype then (Inl ValueError, s)
         else
           let (result, s1) =
                 alloc ((arrays s img)\<lparr>data :=
                    array_sub_scalar (dtype (arrays s img)) (data (arrays s img)) const_value\<rparr>) s;
               s2 = store_mask_assign result
                      (map (\<lambda>v. v < const_value + min_dtype) (data (arrays s1 img)))
                      min_dtype s1
           in (Inr result, s2))"

section \<open>Morphological reconstruction\<close>

text \<open>
  Modelled from the spec: \<^verbatim>\<open>greyreconstruct.reconstruction(seed, mask, method, selem)\<close> is
  imported by the module and not defined in it. The definitions of this section model
  it as the specification describes it: a structuring element that gives each pixel its
  neighbours, and a loop that dilates (or erodes) the marker under the mask until nothing
  changes.
\<close>

datatype rec_method = Dilation | Erosion

text \<open>
  The structuring element is a 2-D array of 0's and 1's; when none is given it is the
  3 by 3 square of ones.
\<close>

definition default_selem :: iarray where
  "default_selem = \<lparr>dtype = UInt8, shape = (3, 3), data = replicate 9 1\<rparr>"

text \<open>
  Pixel \<open>j\<close> is in the neighbourhood of pixel \<open>i\<close> (both flat indices of an image with
  \<open>cols\<close> columns) when the offset from \<open>i\<close> to \<open>j\<close>, taken from the centre of the
  structuring element, lands on one of its non-zero entries.
\<close>

definition connected :: "iarray \<Rightarrow> nat \<Rightarrow> nat \<Rightarrow> nat \<Rightarrow> bool" where
  "connected se cols i j =
     (let sr = fst (shape se); sc = snd (shape se);
          ky = int (j div cols) - int (i div cols) + int (sr div 2);
          kx = int (j mod cols) - int (i mod cols) + int (sc div 2)
      in 0 \<le> ky \<and> ky < int sr \<and> 0 \<le> kx \<and> kx < int sc \<and>
         nat ky * sc + nat kx < length (data se) \<and>
         data se ! (nat ky * sc + nat kx) \<noteq> 0)"

definition neighbours :: "iarray \<Rightarrow> nat \<times> nat \<Rightarrow> nat \<Rightarrow> nat list" where
  "neighbours se sh i = filter (connected se (snd sh) i) [0..<fst sh * snd sh]"

text \<open>
  The dilation of \<open>X\<close> at pixel \<open>p\<close> is the greatest sample of \<open>X\<close> over \<open>p\<close> and its
  neighbours, the erosion the least one. The pixel itself always takes part, whatever
  the centre of the structuring element holds: a flood never lowers the marker.
\<close>

definition dilate_at :: "(nat \<Rightarrow> nat list) \<Rightarrow> 'a::linorder list \<Rightarrow> nat \<Rightarrow> 'a" where
  "dilate_at nb X p = fold max (map (\<lambda>q. X ! q) (filter (\<lambda>q. q < length X) (nb p))) (X ! p)"

definition erode_at :: "(nat \<Rightarrow> nat list) \<Rightarrow> 'a::linorder list \<Rightarrow> nat \<Rightarrow> 'a" where
  "erode_at nb X p = fold min (map (\<lambda>q. X ! q) (filter (\<lambda>q. q < length X) (nb p))) (X ! p)"

text \<open>One round: dilate and clamp against the mask from above (erode, from below).\<close>

definition geodesic_dilation :: "(nat \<Rightarrow> nat list) \<Rightarrow> 'a::linorder list \<Rightarrow> 'a list \<Rightarrow> 'a list" where
  "geodesic_dilation nb msk X = map2 min (map (dilate_at nb X) [0..<length X]) msk"

definition geodesic_erosion :: "(nat \<Rightarrow> nat list) \<Rightarrow> 'a::linorder list \<Rightarrow> 'a list \<Rightarrow> 'a list" where
  "geodesic_erosion nb msk X = map2 max (map (erode_at nb X) [0..<length X]) msk"

text \<open>
  Modelled from the spec: \<^verbatim>\<open>greyreconstruct.reconstruction\<close> is not in the sources. The
  specification describes it as the operation that "iteratively dilates (or erodes) the
  marker under the mask until stability", returning an image of the shape and element
  type of its inputs. The loop may not reach stability, so the result is an option.
\<close>

definition reconstruction ::
  "('t, 'a::linorder) nparray \<Rightarrow> ('t, 'a) nparray \<Rightarrow> rec_method \<Rightarrow> iarray option
     \<Rightarrow> ('t, 'a) nparray option" where
  "reconstruction seed msk m selem =
     (let nb = neighbours (case selem of None \<Rightarrow> default_selem | Some se \<Rightarrow> se) (shape msk);
          step = (case m of Dilation \<Rightarrow> geodesic_dilation nb (data msk)
                          | Erosion \<Rightarrow> geodesic_erosion nb (data msk))
      in map_option (\<lambda>X. seed\<lparr>data := X\<rparr>)
           (while_option (\<lambda>X. step X \<noteq> X) step (data seed)))"

section \<open>h-maxima and h-minima\<close>

text \<open>
  \<^verbatim>\<open>a - b\<close> and unary minus on integer arrays of one element type (the reconstruction
  returns an image of the element type of its inputs), with the type's wrap-around.
\<close>

definition array_sub :: "int_dtype \<Rightarrow> int list \<Rightarrow> int list \<Rightarrow> int list" where
  "array_sub dt xs ys = map2 (\<lambda>x y. wrap dt (x - y)) xs ys"



text \<open>\<^verbatim>\<open>np.zeros(shape)\<close> is an array of float zeros; \<^verbatim>\<open>astype(np.uint8)\<close> converts it.\<close>

definition zeros :: "nat \<times> nat \<Rightarrow> real list" where
  "zeros sh = replicate (fst sh * snd sh) 0"

definition astype_uint8 :: "nat \<times> nat \<Rightarrow> real list \<Rightarrow> iarray" where
  "astype_uint8 sh xs = \<lparr>dtype = UInt8, shape = sh, data = map (\<lambda>x. wrap UInt8 \<lfloor>x\<rfloor>) xs\<rparr>"

text \<open>
  \<^verbatim>\<open>
  def h_maxima(img, h, selem=None):
      if np.issubdtype(img.dtype, 'half'):
          shifted_img = img - h
          resolution = np.finfo(img.dtype).resolution
      else:
          shifted_img = _subtract_constant_clip(img, h)
          resolution = 0
      rec_img = greyreconstruct.reconstruction(shifted_img, img, method='dilation',
                                               selem=selem)
      residue_img = img - rec_img
      result_img = np.zeros(img.shape)
      result_img[residue_img >= h-10*resolution] = 1
      return result_img.astype(np.uint8)
  \<close>
  The test \<^verbatim>\<open>np.issubdtype(img.dtype, 'half')\<close> holds for the floating-point element types
  (the tests of the module run the first branch on float32 and float64 images). An image
  is an integer array or a floating-point array, and \<open>h\<close> is an integer for the former
  (the docstring has \<^verbatim>\<open>h : unsigned integer\<close>) and a real for the latter: the model has the
  function once for each kind, with the branch decided. A result is \<open>None\<close> when the
  reconstruction does not return, \<open>Some (Inl e)\<close> when the function raises \<open>e\<close>.
\<close>

definition h_maxima_float :: "farray \<Rightarrow> real \<Rightarrow> iarray option \<Rightarrow> (error + iarray) option" where
  "h_maxima_float img h selem =
     (let shifted_img = img\<lparr>data := map (\<lambda>v. v - h) (data img)\<rparr>;
          resolution = finfo_resolution (dtype img)
      in case reconstruction shifted_img img Dilation selem of
           None \<Rightarrow> None
         | Some rec_img \<Rightarrow>
             let residue_img = map2 (\<lambda>x y. x - y) (data img) (data rec_img);
                 result_img = zeros (shape img);
                 result_img = mask_assign (map (\<lambda>r. r \<ge> h - 10 * resolution) residue_img)
                                1 result_img
             in Some (Inr (astype_uint8 (shape img) result_img)))"

definition h_maxima_int :: "iarray \<Rightarrow> int \<Rightarrow> iarray option \<Rightarrow> (error + iarray) option" where
  "h_maxima_int img h selem =
     (case subtract_constant_clip img h of
        Inl e \<Rightarrow> Some (Inl e)
      | Inr shifted_img \<Rightarrow>
          let resolution = (0::int)
          in case reconstruction shifted_img img Dilation selem of
               None \<Rightarrow> None
             | Some rec_img \<Rightarrow>
                 let residue_img = array_sub (dtype img) (data img) (data rec_img);
                     result_img = zeros (shape img);
                     result_img = mask_assign (map (\<lambda>r. r \<ge> h - 10 * resolution) residue_img)
                                    1 result_img
                 in Some (Inr (astype_uint8 (shape img) result_img)))"

text \<open>
  \<^verbatim>\<open>
  def h_minima(img, h, selem=None):
      if np.issubdtype(img.dtype, 'half'):
          shifted_img = img + h
          resolution = np.finfo(img.dtype).resolution
      else:
          shifted_img = _add_constant_clip(img, h)
          resolution = 0
      rec_img = greyreconstruct.reconstruction(shifted_img, img, method='erosion',
                                               selem=selem)
      residue_img = rec_img - img
      result_img = np.zeros(img.shape)
      result_img[residue_img >= h - 10*resolution] = 1
      return result_img.astype(np.uint8)
  \<close>
\<close>

definition h_minima_float :: "farray \<Rightarrow> real \<Rightarrow> iarray option \<Rightarrow> (error + iarray) option" where
  "h_minima_float img h selem =
     (let shifted_img = img\<lparr>data := map (\<lambda>v. v + h) (data img)\<rparr>;
          resolution = finfo_resolution (dtype img)
      in case reconstruction shifted_img img Erosion selem of
           None \<Rightarrow> None
         | Some rec_img \<Rightarrow>
             let residue_img = map2 (\<lambda>x y. x - y) (data rec_img) (data img);
                 result_img = zeros (shape img);
                 result_img = mask_assign (map (\<lambda>r. r \<ge> h - 10 * resolution) residue_img)
                                1 result_img
             in Some (Inr (astype_uint8 (shape img) result_img)))"

definition h_minima_int :: "iarray \<Rightarrow> int \<Rightarrow> iarray option \<Rightarrow> (error + iarray) option" where
  "h_minima_int img h selem =
     (case add_constant_clip img h of
        Inl e \<Rightarrow> Some (Inl e)
      | Inr shifted_img \<Rightarrow>
          let resolution = (0::int)
          in case reconstruction shifted_img img Erosion selem of
               None \<Rightarrow> None
             | Some rec_img \<Rightarrow>
                 let residue_img = array_sub (dtype img) (data rec_img) (data img);
                     result_img = zeros (shape img);
                     result_img = mask_assign (map (\<lambda>r. r \<ge> h - 10 * resolution) residue_img)
                                    1 result_img
                 in Some (Inr (astype_uint8 (shape img) result_img)))"

section \<open>Minimal grey-level difference, local maxima and minima\<close>

text \<open>
  \<^verbatim>\<open>
  def find_min_diff(img):
      img_vec = np.unique(img.flatten())
      img_vec.sort()
      min_diff = np.min(img_vec[1:] - img_vec[:-1])
      return min_diff
  \<close>
  \<^verbatim>\<open>np.unique\<close> returns the distinct samples in ascending order. The difference of the two
  slices is taken in the element type of the image, hence the parameter \<open>sub\<close>.
  \<^verbatim>\<open>np.min\<close> of an empty array raises \<^verbatim>\<open>ValueError\<close>.
\<close>

definition np_min :: "'a::linorder list \<Rightarrow> error + 'a" where
  "np_min xs = (case xs of [] \<Rightarrow> Inl ValueError | x # r \<Rightarrow> Inr (fold min r x))"

definition find_min_diff :: "('a \<Rightarrow> 'a \<Rightarrow> 'a) \<Rightarrow> 'a::linorder list \<Rightarrow> error + 'a" where
  "find_min_diff sub xs =
     (let img_vec = sort (remdups xs)
      in np_min (map2 sub (tl img_vec) (butlast img_vec)))"


definition find_min_diff_float :: "farray \<Rightarrow> error + real" where
  "find_min_diff_float img = find_min_diff (\<lambda>x y. x - y) (data img)"

text \<open>
  \<^verbatim>\<open>
  def local_maxima(img, selem=None):
      if np.issubdtype(img.dtype, 'half'):
          h = find_min_diff(img)
      else:
          h = 1
      local_maxima = h_maxima(img, h, selem=selem)
      return local_maxima
  \<close>
  and \<^verbatim>\<open>local_minima\<close> likewise with \<^verbatim>\<open>h_minima\<close>.
\<close>

definition local_maxima_float :: "farray \<Rightarrow> iarray option \<Rightarrow> (error + iarray) option" where
  "local_maxima_float img selem =
     (case find_min_diff_float img of
        Inl e \<Rightarrow> Some (Inl e)
      | Inr h \<Rightarrow> h_maxima_float img h selem)"

definition local_maxima_int :: "iarray \<Rightarrow> iarray option \<Rightarrow> (error + iarray) option" where
  "local_maxima_int img selem = (let h = 1 in h_maxima_int img h selem)"

definition local_minima_float :: "farray \<Rightarrow> iarray option \<Rightarrow> (error + iarray) option" where
  "local_minima_float img selem =
     (case find_min_diff_float img of
        Inl e \<Rightarrow> Some (Inl e)
      | Inr h \<Rightarrow> h_minima_float img h selem)"

definition local_minima_int :: "iarray \<Rightarrow> iarray option \<Rightarrow> (error + iarray) option" where
  "local_minima_int img selem = (let h = 1 in h_minima_int img h selem)"

section \<open>The smallest difference of grey levels\<close>




section \<open>The binary extrema mask\<close>

text \<open>
  What the four operations are to return for an image: an array of the image's shape, of
  element type uint8, whose samples are 0 or 1.
\<close>

definition binary_mask_of :: "('t, 'a) nparray \<Rightarrow> iarray \<Rightarrow> bool" where
  "binary_mask_of img m \<longleftrightarrow>
     dtype m = UInt8 \<and> shape m = shape img \<and> length (data m) = length (data img) \<and>
     list_all (\<lambda>v. v = 0 \<or> v = 1) (data m)"

section \<open>Properties of the saturated arithmetic\<close>

lemma iinfo_min_le_max: "iinfo_min dt \<le> iinfo_max dt"
  by (cases dt) (simp_all add: iinfo_min_def iinfo_max_def)

lemma iinfo_range: "iinfo_max dt - iinfo_min dt = 2 ^ bits dt - 1"
  by (cases dt) (simp_all add: iinfo_min_def iinfo_max_def)

lemma wrap_id:
  assumes "iinfo_min dt \<le> v" and "v \<le> iinfo_max dt"
  shows "wrap dt v = v"
proof -
  have "0 \<le> v - iinfo_min dt" using assms by simp
  moreover have "v - iinfo_min dt < 2 ^ bits dt"
    using assms iinfo_range [of dt] by linarith
  ultimately have "(v - iinfo_min dt) mod 2 ^ bits dt = v - iinfo_min dt"
    by (rule mod_pos_pos_trivial)
  then show ?thesis by (simp add: wrap_def)
qed


lemma mask_assign_map:
  "mask_assign (map p xs) v (map f xs) = map (\<lambda>x. if p x then v else f x) xs"
  by (induction xs) (simp_all add: mask_assign_def)


lemma sub_clip_data:
  assumes "wf_iarray img" and "0 \<le> c"
  shows "mask_assign (map (\<lambda>v. v < c + iinfo_min (dtype img)) (data img)) (iinfo_min (dtype img))
           (array_sub_scalar (dtype img) (data img) c)
         = map (\<lambda>v. if v - c < iinfo_min (dtype img) then iinfo_min (dtype img) else v - c)
             (data img)"
proof -
  have "\<And>v. v \<in> set (data img) \<Longrightarrow> \<not> v < c + iinfo_min (dtype img) \<Longrightarrow>
          wrap (dtype img) (v - c) = v - c"
  proof -
    fix v assume "v \<in> set (data img)" and nc: "\<not> v < c + iinfo_min (dtype img)"
    with assms(1) have "v \<le> iinfo_max (dtype img)"
      by (simp add: wf_iarray_def list_all_iff)
    with assms(2) nc show "wrap (dtype img) (v - c) = v - c"
      by (intro wrap_id) simp_all
  qed
  then show ?thesis
    unfolding array_sub_scalar_def mask_assign_map
    by (intro map_cong) auto
qed



lemma alloc_old: "r < fresh s \<Longrightarrow> arrays (snd (alloc a s)) r = arrays s r"
  by (simp add: alloc_def)

lemma alloc_fst: "fst (alloc a s) = fresh s"
  by (simp add: alloc_def)

lemma store_mask_assign_other:
  "r \<noteq> r' \<Longrightarrow> arrays (store_mask_assign r' m v s) r = arrays s r"
  by (simp add: store_mask_assign_def)

lemma add_constant_clip_st_keeps:
  assumes "img < fresh s"
  shows "arrays (snd (add_constant_clip_st img c s)) img = arrays s img"
  using assms
  by (simp add: add_constant_clip_st_def Let_def alloc_def store_mask_assign_def)

lemma subtract_constant_clip_st_keeps:
  assumes "img < fresh s"
  shows "arrays (snd (subtract_constant_clip_st img c s)) img = arrays s img"
  using assms
  by (simp add: subtract_constant_clip_st_def Let_def alloc_def store_mask_assign_def)

text \<open>The store versions compute the arrays that the value versions return.\<close>

lemma add_constant_clip_st_value:
  assumes "img < fresh s"
  shows "add_constant_clip (arrays s img) c =
           map_sum id (arrays (snd (add_constant_clip_st img c s)))
             (fst (add_constant_clip_st img c s))"
  using assms
  by (simp add: add_constant_clip_st_def add_constant_clip_def Let_def alloc_def
      store_mask_assign_def)

lemma subtract_constant_clip_st_value:
  assumes "img < fresh s"
  shows "subtract_constant_clip (arrays s img) c =
           map_sum id (arrays (snd (subtract_constant_clip_st img c s)))
             (fst (subtract_constant_clip_st img c s))"
  using assms
  by (simp add: subtract_constant_clip_st_def subtract_constant_clip_def Let_def alloc_def
      store_mask_assign_def)

text \<open>
  Claim C3. For an integer image held in the store, \<open>add_constant_clip\<close> and
  \<open>subtract_constant_clip\<close> raise the error exactly when the constant is greater than
  \<open>type_max - type_min\<close> of the image's element type, and whether they raise or return,
  the array of the input image is the same after the call as before.
\<close>

theorem clip_error_iff_and_input_kept:
  assumes "img < fresh s"
  shows "(isl (fst (add_constant_clip_st img c s)) \<longleftrightarrow>
            c > iinfo_max (dtype (arrays s img)) - iinfo_min (dtype (arrays s img)))
       \<and> (isl (fst (subtract_constant_clip_st img c s)) \<longleftrightarrow>
            c > iinfo_max (dtype (arrays s img)) - iinfo_min (dtype (arrays s img)))
       \<and> (isl (add_constant_clip (arrays s img) c) \<longleftrightarrow>
            c > iinfo_max (dtype (arrays s img)) - iinfo_min (dtype (arrays s img)))
       \<and> (isl (subtract_constant_clip (arrays s img) c) \<longleftrightarrow>
            c > iinfo_max (dtype (arrays s img)) - iinfo_min (dtype (arrays s img)))
       \<and> arrays (snd (add_constant_clip_st img c s)) img = arrays s img
       \<and> arrays (snd (subtract_constant_clip_st img c s)) img = arrays s img"
proof (intro conjI)
  show "isl (fst (add_constant_clip_st img c s)) \<longleftrightarrow>
            c > iinfo_max (dtype (arrays s img)) - iinfo_min (dtype (arrays s img))"
    by (simp add: add_constant_clip_st_def Let_def split: prod.splits)
  show "isl (fst (subtract_constant_clip_st img c s)) \<longleftrightarrow>
            c > iinfo_max (dtype (arrays s img)) - iinfo_min (dtype (arrays s img))"
    by (simp add: subtract_constant_clip_st_def Let_def split: prod.splits)
  show "isl (add_constant_clip (arrays s img) c) \<longleftrightarrow>
            c > iinfo_max (dtype (arrays s img)) - iinfo_min (dtype (arrays s img))"
    by (simp add: add_constant_clip_def Let_def)
  show "isl (subtract_constant_clip (arrays s img) c) \<longleftrightarrow>
            c > iinfo_max (dtype (arrays s img)) - iinfo_min (dtype (arrays s img))"
    by (simp add: subtract_constant_clip_def Let_def)
  show "arrays (snd (add_constant_clip_st img c s)) img = arrays s img"
    using assms by (rule add_constant_clip_st_keeps)
  show "arrays (snd (subtract_constant_clip_st img c s)) img = arrays s img"
    using assms by (rule subtract_constant_clip_st_keeps)
qed

theorem clip_error_iff_and_input_kept_witness:
  "0 < fresh \<lparr>arrays = (\<lambda>_. \<lparr>dtype = UInt8, shape = (1, 2), data = [3, 254]\<rparr>), fresh = 1\<rparr>
   \<and> isl (fst (add_constant_clip_st 0 256
        \<lparr>arrays = (\<lambda>_. \<lparr>dtype = UInt8, shape = (1, 2), data = [3, 254]\<rparr>), fresh = 1\<rparr>))
   \<and> \<not> isl (fst (subtract_constant_clip_st 0 255
        \<lparr>arrays = (\<lambda>_. \<lparr>dtype = UInt8, shape = (1, 2), data = [3, 254]\<rparr>), fresh = 1\<rparr>))
   \<and> arrays (snd (subtract_constant_clip_st 0 255
        \<lparr>arrays = (\<lambda>_. \<lparr>dtype = UInt8, shape = (1, 2), data = [3, 254]\<rparr>), fresh = 1\<rparr>)) 0
       = \<lparr>dtype = UInt8, shape = (1, 2), data = [3, 254]\<rparr>"
proof -
  let ?s = "\<lparr>arrays = (\<lambda>_. \<lparr>dtype = UInt8, shape = (1, 2), data = [3, 254]\<rparr>), fresh = 1\<rparr>"
  have al: "0 < fresh ?s" by simp
  from clip_error_iff_and_input_kept [OF al, of 256]
       clip_error_iff_and_input_kept [OF al, of 255]
  show ?thesis
    by (simp add: iinfo_min_def iinfo_max_def)
qed





section \<open>The pipeline of h-maxima\<close>

lemma mask_assign_zeros:
  "map (\<lambda>x. wrap UInt8 \<lfloor>x\<rfloor>) (mask_assign (map p rs) (1::real) (replicate n 0))
   = map (\<lambda>r. if p r then 1 else 0) (take n rs)"
proof (induction rs arbitrary: n)
  case Nil
  then show ?case by (simp add: mask_assign_def)
next
  case (Cons r rs)
  show ?case
  proof (cases n)
    case 0
    then show ?thesis by (simp add: mask_assign_def)
  next
    case (Suc k)
    have "wrap UInt8 1 = 1" "wrap UInt8 0 = 0"
      by (simp_all add: wrap_def iinfo_min_def)
    with Cons.IH [of k] Suc show ?thesis
      by (simp add: mask_assign_def)
  qed
qed

lemma threshold_mask:
  assumes "length rs = fst sh * snd sh"
  shows "astype_uint8 sh (mask_assign (map p rs) 1 (zeros sh))
         = \<lparr>dtype = UInt8, shape = sh, data = map (\<lambda>r. if p r then 1 else 0) rs\<rparr>"
  using assms mask_assign_zeros [of p rs "fst sh * snd sh"]
  by (simp add: astype_uint8_def zeros_def)

lemma geodesic_dilation_length:
  "length (geodesic_dilation nb msk X) = min (length X) (length msk)"
  by (simp add: geodesic_dilation_def)

lemma geodesic_erosion_length:
  "length (geodesic_erosion nb msk X) = min (length X) (length msk)"
  by (simp add: geodesic_erosion_def)

lemma while_length:
  assumes "while_option b c X0 = Some R" and "length X0 = n"
    and "\<And>X. length X = n \<Longrightarrow> length (c X) = n"
  shows "length R = n"
  using while_option_rule [where P = "\<lambda>X. length X = n", OF _ assms(1)] assms(2,3)
  by blast

lemma reconstruction_length:
  assumes "reconstruction seed msk m se = Some r" and "length (data seed) = length (data msk)"
  shows "length (data r) = length (data msk)"
proof -
  let ?nb = "neighbours (case se of None \<Rightarrow> default_selem | Some se \<Rightarrow> se) (shape msk)"
  let ?step = "case m of Dilation \<Rightarrow> geodesic_dilation ?nb (data msk)
                        | Erosion \<Rightarrow> geodesic_erosion ?nb (data msk)"
  from assms(1) obtain R where R: "while_option (\<lambda>X. ?step X \<noteq> X) ?step (data seed) = Some R"
    and r: "r = seed\<lparr>data := R\<rparr>"
    by (auto simp: reconstruction_def Let_def)
  have "\<And>X. length X = length (data msk) \<Longrightarrow> length (?step X) = length (data msk)"
    by (cases m) (simp_all add: geodesic_dilation_length geodesic_erosion_length)
  with R assms(2) have "length R = length (data msk)"
    by (rule while_length)
  with r show ?thesis by simp
qed

lemma reconstruction_fields:
  assumes "reconstruction seed msk m se = Some r"
  shows "dtype r = dtype seed" and "shape r = shape seed"
  using assms by (auto simp: reconstruction_def Let_def)

lemma subtract_constant_clip_ok:
  assumes "wf_iarray img" and "0 \<le> h" and "\<not> h > iinfo_max (dtype img) - iinfo_min (dtype img)"
  shows "subtract_constant_clip img h =
           Inr (img\<lparr>data := map (\<lambda>v. if v - h < iinfo_min (dtype img)
                                       then iinfo_min (dtype img) else v - h) (data img)\<rparr>)"
  using assms(3) sub_clip_data [OF assms(1,2)]
  by (simp add: subtract_constant_clip_def Let_def)



lemma h_maxima_int_unfold:
  assumes "subtract_constant_clip img h = Inr shifted" 
    and "length (data shifted) = length (data img)"
    and "length (data img) = fst (shape img) * snd (shape img)"
  shows "h_maxima_int img h se =
           map_option (\<lambda>rec_img. Inr \<lparr>dtype = UInt8, shape = shape img,
               data = map (\<lambda>r. if r \<ge> h - 10 * 0 then 1 else 0)
                        (array_sub (dtype img) (data img) (data rec_img))\<rparr>)
             (reconstruction shifted img Dilation se)"
proof (cases "reconstruction shifted img Dilation se")
  case None
  with assms(1) show ?thesis by (simp add: h_maxima_int_def)
next
  case (Some r)
  then have "length (data r) = length (data img)"
    using assms(2) by (rule reconstruction_length)
  then have "length (array_sub (dtype img) (data img) (data r)) = fst (shape img) * snd (shape img)"
    using assms(3) by (simp add: array_sub_def)
  from threshold_mask [OF this] Some assms(1) show ?thesis
    by (simp add: h_maxima_int_def Let_def)
qed



subsection \<open>Dilation at a pixel\<close>

lemma dilate_at_Max:
  "dilate_at nb X p = Max (insert (X ! p) ((!) X ` {q \<in> set (nb p). q < length X}))"
proof -
  have "dilate_at nb X p = Max (set (X ! p # map ((!) X) (filter (\<lambda>q. q < length X) (nb p))))"
    unfolding dilate_at_def by (simp only: Max.set_eq_fold)
  then show ?thesis by simp
qed

lemma dilate_at_ge_self: "X ! p \<le> dilate_at nb X p"
  unfolding dilate_at_Max by (intro Max_ge) simp_all



lemma geodesic_dilation_nth:
  assumes "length X = length msk" and "p < length msk"
  shows "geodesic_dilation nb msk X ! p = min (dilate_at nb X p) (msk ! p)"
  using assms by (simp add: geodesic_dilation_def)

subsection \<open>The loop of the reconstruction by dilation\<close>



section \<open>Result masks, local maxima and height zero\<close>

lemma clip_length:
  "subtract_constant_clip img h = Inr s \<Longrightarrow> length (data s) = length (data img)"
  "add_constant_clip img h = Inr s \<Longrightarrow> length (data s) = length (data img)"
  by (auto simp: subtract_constant_clip_def add_constant_clip_def Let_def mask_assign_def
      array_sub_scalar_def array_add_scalar_def split: if_splits)

lemma threshold_mask_binary:
  assumes "length rs = fst (shape img) * snd (shape img)"
    and "length (data img) = fst (shape img) * snd (shape img)"
  shows "binary_mask_of img (astype_uint8 (shape img) (mask_assign (map p rs) 1 (zeros (shape img))))"
  using assms(2) unfolding threshold_mask [OF assms(1)]
  by (auto simp: binary_mask_of_def list_all_iff assms(1))

lemma h_maxima_int_binary:
  assumes "h_maxima_int img h se = Some (Inr m)"
    and len: "length (data img) = fst (shape img) * snd (shape img)"
  shows "binary_mask_of img m"
proof -
  from assms(1) obtain s r where s: "subtract_constant_clip img h = Inr s"
    and r: "reconstruction s img Dilation se = Some r"
    and m: "m = astype_uint8 (shape img)
                  (mask_assign (map (\<lambda>r. r \<ge> h - 10 * 0) (array_sub (dtype img) (data img) (data r)))
                     1 (zeros (shape img)))"
    by (auto simp: h_maxima_int_def Let_def split: sum.splits option.splits)
  from r clip_length(1) [OF s] have "length (data r) = length (data img)"
    by (rule reconstruction_length)
  then have "length (array_sub (dtype img) (data img) (data r)) = fst (shape img) * snd (shape img)"
    using len by (simp add: array_sub_def)
  then show ?thesis unfolding m using len by (rule threshold_mask_binary)
qed

lemma h_minima_int_binary:
  assumes "h_minima_int img h se = Some (Inr m)"
    and len: "length (data img) = fst (shape img) * snd (shape img)"
  shows "binary_mask_of img m"
proof -
  from assms(1) obtain s r where s: "add_constant_clip img h = Inr s"
    and r: "reconstruction s img Erosion se = Some r"
    and m: "m = astype_uint8 (shape img)
                  (mask_assign (map (\<lambda>r. r \<ge> h - 10 * 0) (array_sub (dtype img) (data r) (data img)))
                     1 (zeros (shape img)))"
    by (auto simp: h_minima_int_def Let_def split: sum.splits option.splits)
  from r clip_length(2) [OF s] have "length (data r) = length (data img)"
    by (rule reconstruction_length)
  then have "length (array_sub (dtype img) (data r) (data img)) = fst (shape img) * snd (shape img)"
    using len by (simp add: array_sub_def)
  then show ?thesis unfolding m using len by (rule threshold_mask_binary)
qed

lemma h_maxima_float_binary:
  assumes "h_maxima_float img h se = Some (Inr m)"
    and len: "length (data img) = fst (shape img) * snd (shape img)"
  shows "binary_mask_of img m"
proof -
  let ?s = "img\<lparr>data := map (\<lambda>v. v - h) (data img)\<rparr>"
  from assms(1) obtain r where r: "reconstruction ?s img Dilation se = Some r"
    and m: "m = astype_uint8 (shape img)
                  (mask_assign (map (\<lambda>r. r \<ge> h - 10 * finfo_resolution (dtype img))
                       (map2 (\<lambda>x y. x - y) (data img) (data r)))
                     1 (zeros (shape img)))"
    by (auto simp: h_maxima_float_def Let_def split: option.splits)
  have "length (data ?s) = length (data img)" by simp
  with r have "length (data r) = length (data img)"
    by (rule reconstruction_length)
  then have "length (map2 (\<lambda>x y. x - y) (data img) (data r)) = fst (shape img) * snd (shape img)"
    using len by simp
  then show ?thesis unfolding m using len by (rule threshold_mask_binary)
qed

lemma h_minima_float_binary:
  assumes "h_minima_float img h se = Some (Inr m)"
    and len: "length (data img) = fst (shape img) * snd (shape img)"
  shows "binary_mask_of img m"
proof -
  let ?s = "img\<lparr>data := map (\<lambda>v. v + h) (data img)\<rparr>"
  from assms(1) obtain r where r: "reconstruction ?s img Erosion se = Some r"
    and m: "m = astype_uint8 (shape img)
                  (mask_assign (map (\<lambda>r. r \<ge> h - 10 * finfo_resolution (dtype img))
                       (map2 (\<lambda>x y. x - y) (data r) (data img)))
                     1 (zeros (shape img)))"
    by (auto simp: h_minima_float_def Let_def split: option.splits)
  have "length (data ?s) = length (data img)" by simp
  with r have "length (data r) = length (data img)"
    by (rule reconstruction_length)
  then have "length (map2 (\<lambda>x y. x - y) (data r) (data img)) = fst (shape img) * snd (shape img)"
    using len by simp
  then show ?thesis unfolding m using len by (rule threshold_mask_binary)
qed

text \<open>
  Claim C8. Whenever one of \<open>h_maxima\<close>, \<open>h_minima\<close>, \<open>local_maxima\<close>, \<open>local_minima\<close>
  returns an array for an image (integer or floating-point) whose samples fill its shape,
  that array has the shape of the image, element type uint8, and samples 0 or 1 only.
\<close>

theorem extrema_masks_binary:
  assumes "length (data img) = fst (shape img) * snd (shape img)"
    and "length (data fimg) = fst (shape fimg) * snd (shape fimg)"
  shows "(h_maxima_int img h se = Some (Inr m) \<longrightarrow> binary_mask_of img m)
       \<and> (h_minima_int img h se = Some (Inr m) \<longrightarrow> binary_mask_of img m)
       \<and> (local_maxima_int img se = Some (Inr m) \<longrightarrow> binary_mask_of img m)
       \<and> (local_minima_int img se = Some (Inr m) \<longrightarrow> binary_mask_of img m)
       \<and> (h_maxima_float fimg x se = Some (Inr m) \<longrightarrow> binary_mask_of fimg m)
       \<and> (h_minima_float fimg x se = Some (Inr m) \<longrightarrow> binary_mask_of fimg m)
       \<and> (local_maxima_float fimg se = Some (Inr m) \<longrightarrow> binary_mask_of fimg m)
       \<and> (local_minima_float fimg se = Some (Inr m) \<longrightarrow> binary_mask_of fimg m)"
proof (intro conjI impI)
  show "binary_mask_of img m" if "h_maxima_int img h se = Some (Inr m)"
    using that assms(1) by (rule h_maxima_int_binary)
  show "binary_mask_of img m" if "h_minima_int img h se = Some (Inr m)"
    using that assms(1) by (rule h_minima_int_binary)
  show "binary_mask_of img m" if "local_maxima_int img se = Some (Inr m)"
    using that assms(1) unfolding local_maxima_int_def Let_def by (rule h_maxima_int_binary)
  show "binary_mask_of img m" if "local_minima_int img se = Some (Inr m)"
    using that assms(1) unfolding local_minima_int_def Let_def by (rule h_minima_int_binary)
  show "binary_mask_of fimg m" if "h_maxima_float fimg x se = Some (Inr m)"
    using that assms(2) by (rule h_maxima_float_binary)
  show "binary_mask_of fimg m" if "h_minima_float fimg x se = Some (Inr m)"
    using that assms(2) by (rule h_minima_float_binary)
  show "binary_mask_of fimg m" if "local_maxima_float fimg se = Some (Inr m)"
  proof -
    from that obtain y where "h_maxima_float fimg y se = Some (Inr m)"
      by (auto simp: local_maxima_float_def split: sum.splits)
    then show ?thesis using assms(2) by (rule h_maxima_float_binary)
  qed
  show "binary_mask_of fimg m" if "local_minima_float fimg se = Some (Inr m)"
  proof -
    from that obtain y where "h_minima_float fimg y se = Some (Inr m)"
      by (auto simp: local_minima_float_def split: sum.splits)
    then show ?thesis using assms(2) by (rule h_minima_float_binary)
  qed
qed

text \<open>
  Claim C4. On an integer image \<open>local_maxima\<close> is \<open>h_maxima\<close> with \<open>h = 1\<close>, for every
  structuring element; on a floating-point image it is \<open>h_maxima\<close> with the \<open>h\<close> that
  \<open>find_min_diff\<close> returns for the image (and raises what \<open>find_min_diff\<close> raises).
\<close>

theorem local_maxima_h:
  "local_maxima_int img se = h_maxima_int img 1 se
   \<and> local_maxima_float fimg se =
       (case find_min_diff_float fimg of
          Inl e \<Rightarrow> Some (Inl e)
        | Inr h \<Rightarrow> h_maxima_float fimg h se)"
  by (simp add: local_maxima_int_def local_maxima_float_def)

lemma geodesic_dilation_self:
  fixes f :: "'a::linorder list"
  shows "geodesic_dilation nb f f = f"
proof (rule nth_equalityI)
  show "length (geodesic_dilation nb f f) = length f"
    by (simp add: geodesic_dilation_length)
  fix p assume "p < length (geodesic_dilation nb f f)"
  then have p: "p < length f" by (simp add: geodesic_dilation_length)
  then have "geodesic_dilation nb f f ! p = min (dilate_at nb f p) (f ! p)"
    by (simp add: geodesic_dilation_nth)
  also have "\<dots> = f ! p" using dilate_at_ge_self [of f p nb] by simp
  finally show "geodesic_dilation nb f f ! p = f ! p" .
qed

lemma reconstruction_self: "reconstruction img img Dilation se = Some img"
  by (simp add: reconstruction_def Let_def while_option_unfold geodesic_dilation_self)

text \<open>
  Claim C10. For a well-formed integer image and every structuring element,
  \<open>h_maxima\<close> with \<open>h = 0\<close> returns the mask of ones.
\<close>

theorem h_maxima_zero:
  assumes "wf_iarray img"
  shows "h_maxima_int img 0 se =
           Some (Inr \<lparr>dtype = UInt8, shape = shape img, data = replicate (length (data img)) 1\<rparr>)"
proof -
  have range: "\<not> 0 > iinfo_max (dtype img) - iinfo_min (dtype img)"
    using iinfo_min_le_max [of "dtype img"] by simp
  have m: "map (\<lambda>v. if v - 0 < iinfo_min (dtype img) then iinfo_min (dtype img) else v - 0)
             (data img) = data img"
    using assms by (intro map_idI) (auto simp: wf_iarray_def list_all_iff)
  have sub: "subtract_constant_clip img 0 = Inr img"
    using subtract_constant_clip_ok [OF assms order_refl range] m by simp
  have len: "length (data img) = fst (shape img) * snd (shape img)"
    using assms by (simp add: wf_iarray_def)
  have z: "wrap (dtype img) 0 = 0"
    by (cases "dtype img") (simp_all add: wrap_def iinfo_min_def)
  have "array_sub (dtype img) (data img) (data img) = replicate (length (data img)) 0"
    by (simp add: array_sub_def z map_replicate_const zip_same_conv_map comp_def)
  with h_maxima_int_unfold [OF sub refl len, of se]
  show ?thesis
    by (simp add: reconstruction_self)
qed

theorem extrema_masks_binary_witness:
  "length (data (\<lparr>dtype = UInt8, shape = (1, 3), data = [5, 3, 9]\<rparr> :: iarray)) = 1 * 3
   \<and> length (data (\<lparr>dtype = Float32, shape = (1, 3), data = [5, 3, 9]\<rparr> :: farray)) = 1 * 3
   \<and> h_maxima_int \<lparr>dtype = UInt8, shape = (1, 3), data = [5, 3, 9]\<rparr> 2 None
       = Some (Inr \<lparr>dtype = UInt8, shape = (1, 3), data = [1, 0, 1]\<rparr>)
   \<and> local_maxima_float \<lparr>dtype = Float32, shape = (1, 3), data = [5, 3, 9]\<rparr> None
       = Some (Inr \<lparr>dtype = UInt8, shape = (1, 3), data = [1, 0, 1]\<rparr>)
   \<and> binary_mask_of (\<lparr>dtype = UInt8, shape = (1, 3), data = [5, 3, 9]\<rparr> :: iarray)
         \<lparr>dtype = UInt8, shape = (1, 3), data = [1, 0, 1]\<rparr>
   \<and> binary_mask_of (\<lparr>dtype = Float32, shape = (1, 3), data = [5, 3, 9]\<rparr> :: farray)
         \<lparr>dtype = UInt8, shape = (1, 3), data = [1, 0, 1]\<rparr>
   \<and> h_minima_float \<lparr>dtype = Float32, shape = (1, 3), data = [5, 3, 9]\<rparr> (3 / 2) None
       = Some (Inr \<lparr>dtype = UInt8, shape = (1, 3), data = [0, 1, 0]\<rparr>)
   \<and> local_minima_int \<lparr>dtype = UInt8, shape = (1, 3), data = [5, 3, 9]\<rparr> None
       = Some (Inr \<lparr>dtype = UInt8, shape = (1, 3), data = [0, 1, 0]\<rparr>)
   \<and> binary_mask_of (\<lparr>dtype = UInt8, shape = (1, 3), data = [5, 3, 9]\<rparr> :: iarray)
         \<lparr>dtype = UInt8, shape = (1, 3), data = [0, 1, 0]\<rparr>
   \<and> binary_mask_of (\<lparr>dtype = Float32, shape = (1, 3), data = [5, 3, 9]\<rparr> :: farray)
         \<lparr>dtype = UInt8, shape = (1, 3), data = [0, 1, 0]\<rparr>"
proof -
  let ?a = "\<lparr>dtype = UInt8, shape = (1, 3), data = [5, 3, 9]\<rparr> :: iarray"
  let ?f = "\<lparr>dtype = Float32, shape = (1, 3), data = [5, 3, 9]\<rparr> :: farray"
  let ?hi = "\<lparr>dtype = UInt8, shape = (1, 3), data = [1, 0, 1]\<rparr> :: iarray"
  let ?lo = "\<lparr>dtype = UInt8, shape = (1, 3), data = [0, 1, 0]\<rparr> :: iarray"
  have la: "length (data ?a) = fst (shape ?a) * snd (shape ?a)" by simp
  have lf: "length (data ?f) = fst (shape ?f) * snd (shape ?f)" by simp
  have e1: "h_maxima_int ?a 2 None = Some (Inr ?hi)" by code_simp
  have e2: "local_maxima_float ?f None = Some (Inr ?hi)" by code_simp
  have e3: "h_minima_float ?f (3 / 2) None = Some (Inr ?lo)" by code_simp
  have e4: "local_minima_int ?a None = Some (Inr ?lo)" by code_simp
  from extrema_masks_binary [OF la lf, of 2 None ?hi "3 / 2"]
       extrema_masks_binary [OF la lf, of 2 None ?lo "3 / 2"] e1 e2 e3 e4
  show ?thesis by simp
qed

theorem h_maxima_zero_witness:
  "wf_iarray \<lparr>dtype = Int8, shape = (2, 2), data = [- 128, 127, 0, 5]\<rparr>
   \<and> h_maxima_int \<lparr>dtype = Int8, shape = (2, 2), data = [- 128, 127, 0, 5]\<rparr> 0 None
       = Some (Inr \<lparr>dtype = UInt8, shape = (2, 2), data = [1, 1, 1, 1]\<rparr>)"
proof -
  let ?a = "\<lparr>dtype = Int8, shape = (2, 2), data = [- 128, 127, 0, 5]\<rparr> :: iarray"
  have wf: "wf_iarray ?a" by code_simp
  from h_maxima_zero [OF wf, of None] wf show ?thesis
    by (simp add: numeral_eq_Suc)
qed

section \<open>Properties of the minimal grey-level difference\<close>















section \<open>A higher threshold marks fewer pixels\<close>

subsection \<open>Dilation and erosion under a map of the samples\<close>





subsection \<open>Raising the marker by a constant\<close>












section \<open>Maxima of an image and minima of its negation\<close>

subsection \<open>Erosion is dilation of the negated image\<close>














end
